theory Spec2Isabelle
  imports Main "HOL-Library.AList"
begin

section \<open>Strings\<close>

text \<open>
  JavaScript strings are modelled by \<open>string\<close>: one \<open>char\<close> per code unit, so the model
  covers the strings whose code units are below 256. Within that range the white space of
  \<open>String.prototype.trim\<close>, of \<open>parseInt\<close> and of the regular-expression class \<open>\s\<close> is
  TAB, LF, VT, FF, CR, SPACE and NBSP.
\<close>

definition isWhiteSpace :: "char \<Rightarrow> bool" where
  "isWhiteSpace c =
     (c = CHR 0x09 \<or> c = CHR 0x0A \<or> c = CHR 0x0B \<or> c = CHR 0x0C \<or> c = CHR 0x0D
      \<or> c = CHR 0x20 \<or> c = CHR 0xA0)"

definition trim :: "string \<Rightarrow> string" where
  "trim s = rev (dropWhile isWhiteSpace (rev (dropWhile isWhiteSpace s)))"

section \<open>The email predicate (src/js/utils.js, FormValidator.validateEmail)\<close>

text \<open>
  The source tests the value against the literal \<open>/^[^\s@]+@[^\s@]+\.[^\s@]+$/\<close>. The
  pattern is anchored at both ends and built from two kinds of token only: a literal
  character, and a negated character class under \<open>+\<close>. A pattern is the list of its tokens
  and \<open>regex_test\<close> is a backtracking matcher of the whole input against it.
\<close>

datatype token = Lit char | ClassPlus "char \<Rightarrow> bool"

fun regex_test :: "token list \<Rightarrow> string \<Rightarrow> bool" where
  "regex_test [] s = (s = [])"
| "regex_test (Lit c # r) [] = False"
| "regex_test (Lit c # r) (x # xs) = (x = c \<and> regex_test r xs)"
| "regex_test (ClassPlus p # r) [] = False"
| "regex_test (ClassPlus p # r) (x # xs) =
     (p x \<and> (regex_test r xs \<or> regex_test (ClassPlus p # r) xs))"

text \<open>The class \<open>[^\s@]\<close>.\<close>

definition notSpaceAt :: "char \<Rightarrow> bool" where
  "notSpaceAt c = (\<not> isWhiteSpace c \<and> c \<noteq> CHR ''@'')"

definition emailRegex :: "token list" where
  "emailRegex =
     [ClassPlus notSpaceAt, Lit CHR ''@'', ClassPlus notSpaceAt, Lit CHR ''.'',
      ClassPlus notSpaceAt]"

definition validateEmail :: "string \<Rightarrow> bool" where
  "validateEmail email = regex_test emailRegex email"

text \<open>
  The shape in the words of the specification: a non-empty run of characters that are
  neither white space nor \<open>@\<close>, an \<open>@\<close>, such a run, a dot, such a run.
\<close>

definition segment :: "string \<Rightarrow> bool" where
  "segment s = (s \<noteq> [] \<and> (\<forall>c \<in> set s. \<not> isWhiteSpace c \<and> c \<noteq> CHR ''@''))"

definition email_shape :: "string \<Rightarrow> bool" where
  "email_shape s =
     (\<exists>l d t. s = l @ ''@'' @ d @ ''.'' @ t \<and> segment l \<and> segment d \<and> segment t)"

section \<open>Elements, forms and the platform\<close>

record js_error =
  error_name :: string
  error_message :: string

text \<open>
  An element of the page: its tag in lower case, its attributes other than \<open>class\<close> as the
  markup or a script set them, the value of its \<open>type\<close> property, its class list, its
  text and the \<open>display\<close> of its inline style. A document is the list of its elements in
  document order; the nesting of elements is not modelled.
\<close>

record element =
  localName :: string
  attrs :: "(string \<times> string) list"
  type :: string
  classList :: "string list"
  textContent :: string
  display :: string

definition hasAttribute :: "element \<Rightarrow> string \<Rightarrow> bool" where
  "hasAttribute el a = (map_of (attrs el) a \<noteq> None)"

definition getAttribute :: "element \<Rightarrow> string \<Rightarrow> string option" where
  "getAttribute el a = map_of (attrs el) a"

text \<open>The properties \<open>name\<close> and \<open>placeholder\<close> reflect the attributes; only \<open>input\<close>
  and \<open>textarea\<close> have the second, and a missing property is as falsy as the empty
  string.\<close>

definition name :: "element \<Rightarrow> string" where
  "name el = (case getAttribute el ''name'' of Some n \<Rightarrow> n | None \<Rightarrow> [])"

definition placeholder :: "element \<Rightarrow> string" where
  "placeholder el =
     (if localName el = ''input'' \<or> localName el = ''textarea'' then
        (case getAttribute el ''placeholder'' of Some p \<Rightarrow> p | None \<Rightarrow> [])
      else [])"

text \<open>
  A form is the list of the elements below it in document order, and the list of entries
  that \<open>new FormData(form)\<close> holds; the value of an entry is a string or, for a file
  input, a \<open>File\<close> (here with its file name). The validator reads the value of a field
  from the entries, by the field's name: for an enabled text control whose name no
  earlier control shares, that is the control's current value.
\<close>

datatype entryValue = Text string | File string

record form =
  elements :: "element list"
  formData :: "(string \<times> entryValue) list"

definition formData_get :: "(string \<times> entryValue) list \<Rightarrow> string \<Rightarrow> entryValue option" where
  "formData_get fd n = map_of fd n"

text \<open>
  What the browser supplies and the source does not contain is a parameter:
  \<open>RegExp p\<close> is \<open>new RegExp(p)\<close>, either the \<open>SyntaxError\<close> thrown or the \<open>test\<close> of the
  expression built; \<open>lessThanString n s\<close> is \<open>n < s\<close> for a number \<open>n\<close> and a string
  \<open>s\<close>, which converts the string to a number; \<open>selector q\<close> is the reading of the
  selector \<open>q\<close>, either the \<open>SyntaxError\<close> thrown or the elements it matches.
\<close>

record platform =
  RegExp :: "string \<Rightarrow> js_error + (string \<Rightarrow> bool)"
  lessThanString :: "nat \<Rightarrow> string \<Rightarrow> bool"
  selector :: "string \<Rightarrow> js_error + (element \<Rightarrow> bool)"

section \<open>parseInt\<close>

text \<open>
  \<open>parseInt(s)\<close> without a radix: leading white space is skipped, a sign is read, the
  prefix \<open>0x\<close> or \<open>0X\<close> selects radix 16, and the longest run of digits is the number;
  \<open>None\<close> is \<open>NaN\<close>. JavaScript returns the double nearest to this integer. The source
  compares it with the length of a string, which is below \<open>2^53\<close>, and there the double
  and the integer compare alike; where the source prints it, the model keeps the text of
  the attribute instead of the number.
\<close>

definition digitValue :: "char \<Rightarrow> nat option" where
  "digitValue c =
     (let n = of_char c :: nat in
      if 48 \<le> n \<and> n \<le> 57 then Some (n - 48)
      else if 97 \<le> n \<and> n \<le> 102 then Some (n - 87)
      else if 65 \<le> n \<and> n \<le> 70 then Some (n - 55)
      else None)"

definition isDigit :: "nat \<Rightarrow> char \<Rightarrow> bool" where
  "isDigit radix c = (case digitValue c of Some v \<Rightarrow> v < radix | None \<Rightarrow> False)"

definition digitsValue :: "nat \<Rightarrow> string \<Rightarrow> nat" where
  "digitsValue radix ds = foldl (\<lambda>a c. a * radix + the (digitValue c)) 0 ds"

definition parseDigits :: "nat \<Rightarrow> string \<Rightarrow> nat option" where
  "parseDigits radix s =
     (let ds = takeWhile (isDigit radix) s
      in if ds = [] then None else Some (digitsValue radix ds))"

definition parseInt :: "string \<Rightarrow> int option" where
  "parseInt s =
     (let s1 = dropWhile isWhiteSpace s;
          negative = (take 1 s1 = ''-'');
          s2 = (if take 1 s1 = ''-'' \<or> take 1 s1 = ''+'' then drop 1 s1 else s1);
          hex = (take 2 s2 = ''0x'' \<or> take 2 s2 = ''0X'');
          r = (if hex then parseDigits 16 (drop 2 s2) else parseDigits 10 s2)
      in map_option (\<lambda>n. if negative then - int n else int n) r)"

section \<open>The form validator (src/js/utils.js, FormValidator)\<close>

text \<open>
  The messages, by their fixed text and what is put into it: the field is required (with
  the label shown in it), the email address is not correct, the password has fewer than
  so many characters (with the text of the minimum), minimum length and maximum length
  (with the text of the attribute; the message shows the number \<open>parseInt\<close> reads from
  it), the \<open>title\<close> of the field, and wrong format. The constructors stand for distinct
  texts; a \<open>title\<close> that repeats one of the fixed texts is still a \<open>TitleMsg\<close> here.
\<close>

datatype message =
    RequiredMsg string
  | EmailMsg
  | PasswordMsg string
  | MinLengthMsg string
  | MaxLengthMsg string
  | TitleMsg string
  | FormatMsg

text \<open>
  The object \<open>errors\<close> is the list of its own properties in the order they were first
  set. \<open>errors[k] = v\<close> for a string \<open>v\<close> replaces the value of the property \<open>k\<close> or adds
  the property at the end, except for the key \<open>__proto__\<close>: that is the accessor of
  \<open>Object.prototype\<close>, whose setter ignores a string, and no property is set.
\<close>

type_synonym errors = "(string \<times> message) list"

definition setProperty :: "string \<Rightarrow> message \<Rightarrow> errors \<Rightarrow> errors" where
  "setProperty k v obj = (if k = ''__proto__'' then obj else AList.update k v obj)"

record ValidationResult =
  valid :: bool
  errors :: errors

text \<open>\<open>input[required], textarea[required], select[required]\<close>.\<close>

definition requiredField :: "element \<Rightarrow> bool" where
  "requiredField el =
     ((localName el = ''input'' \<or> localName el = ''textarea'' \<or> localName el = ''select'')
      \<and> hasAttribute el ''required'')"

definition querySelectorAll_required :: "form \<Rightarrow> element list" where
  "querySelectorAll_required f = filter requiredField (elements f)"

text \<open>
  \<open>!fieldValue || fieldValue.trim() === ''\<close>: \<open>null\<close> and the empty string are falsy; a
  \<open>File\<close> is truthy and has no method \<open>trim\<close>, so the call throws a \<open>TypeError\<close> (the text
  of its message is the engine's).
\<close>

definition trimTypeError :: js_error where
  "trimTypeError =
     \<lparr>error_name = ''TypeError'', error_message = ''fieldValue.trim is not a function''\<rparr>"

definition isBlank :: "entryValue option \<Rightarrow> js_error + bool" where
  "isBlank fieldValue =
     (case fieldValue of
        None \<Rightarrow> Inr True
      | Some (Text s) \<Rightarrow> Inr (s = [] \<or> trim s = [])
      | Some (File fn) \<Rightarrow> Inl trimTypeError)"

text \<open>The string that \<open>fieldValue\<close> is once the test has passed.\<close>

definition stringOf :: "entryValue option \<Rightarrow> string" where
  "stringOf fieldValue = (case fieldValue of Some (Text s) \<Rightarrow> s | _ \<Rightarrow> [])"

text \<open>The comparisons of a length with the result of \<open>parseInt\<close>; with \<open>NaN\<close> both are
  false.\<close>

definition shorterThan :: "string \<Rightarrow> int option \<Rightarrow> bool" where
  "shorterThan s n = (case n of None \<Rightarrow> False | Some k \<Rightarrow> int (length s) < k)"

definition longerThan :: "string \<Rightarrow> int option \<Rightarrow> bool" where
  "longerThan s n = (case n of None \<Rightarrow> False | Some k \<Rightarrow> int (length s) > k)"

text \<open>The steps of the callback after the test for emptiness, each from the errors so far
  to the errors after it.\<close>

definition checkEmail :: "element \<Rightarrow> string \<Rightarrow> errors \<Rightarrow> errors" where
  "checkEmail field fieldValue errs =
     (if type field = ''email'' then
        (if \<not> validateEmail fieldValue then setProperty (name field) EmailMsg errs else errs)
      else errs)"

text \<open>\<open>field.getAttribute('minlength') || 8\<close> is the number 8 when the attribute is
  missing or empty and the text of the attribute otherwise.\<close>

definition checkPassword :: "platform \<Rightarrow> element \<Rightarrow> string \<Rightarrow> errors \<Rightarrow> errors" where
  "checkPassword P field fieldValue errs =
     (if type field = ''password'' then
        (case getAttribute field ''minlength'' of
           None \<Rightarrow>
             if length fieldValue < 8 then setProperty (name field) (PasswordMsg ''8'') errs
             else errs
         | Some minLength \<Rightarrow>
             if minLength = [] then
               (if length fieldValue < 8 then
                  setProperty (name field) (PasswordMsg ''8'') errs
                else errs)
             else if lessThanString P (length fieldValue) minLength then
               setProperty (name field) (PasswordMsg minLength) errs
             else errs)
      else errs)"

definition checkMinlength :: "element \<Rightarrow> string \<Rightarrow> errors \<Rightarrow> errors" where
  "checkMinlength field fieldValue errs =
     (case getAttribute field ''minlength'' of
        None \<Rightarrow> errs
      | Some a \<Rightarrow>
          let minLength = parseInt a
          in if shorterThan fieldValue minLength then
               setProperty (name field) (MinLengthMsg a) errs
             else errs)"

definition checkMaxlength :: "element \<Rightarrow> string \<Rightarrow> errors \<Rightarrow> errors" where
  "checkMaxlength field fieldValue errs =
     (case getAttribute field ''maxlength'' of
        None \<Rightarrow> errs
      | Some a \<Rightarrow>
          let maxLength = parseInt a
          in if longerThan fieldValue maxLength then
               setProperty (name field) (MaxLengthMsg a) errs
             else errs)"

definition patternMessage :: "element \<Rightarrow> message" where
  "patternMessage field =
     (case getAttribute field ''title'' of
        None \<Rightarrow> FormatMsg
      | Some t \<Rightarrow> if t = [] then FormatMsg else TitleMsg t)"

definition checkPattern :: "platform \<Rightarrow> element \<Rightarrow> string \<Rightarrow> errors \<Rightarrow> js_error + errors" where
  "checkPattern P field fieldValue errs =
     (case getAttribute field ''pattern'' of
        None \<Rightarrow> Inr errs
      | Some p \<Rightarrow>
          (case RegExp P p of
             Inl err \<Rightarrow> Inl err
           | Inr test \<Rightarrow>
               if \<not> test fieldValue then
                 Inr (setProperty (name field) (patternMessage field) errs)
               else Inr errs))"

text \<open>The callback of \<open>fields.forEach\<close>: \<open>Inl\<close> is an exception that leaves it.\<close>

definition checkField ::
  "platform \<Rightarrow> (string \<times> entryValue) list \<Rightarrow> element \<Rightarrow> errors \<Rightarrow> js_error + errors" where
  "checkField P fd field errs =
     (let fieldName = name field;
          fieldValue = formData_get fd fieldName
      in case isBlank fieldValue of
           Inl err \<Rightarrow> Inl err
         | Inr isEmpty \<Rightarrow>
             if isEmpty then
               Inr (setProperty fieldName
                      (RequiredMsg (if placeholder field \<noteq> [] then placeholder field
                                    else fieldName)) errs)
             else
               checkPattern P field (stringOf fieldValue)
                 (checkMaxlength field (stringOf fieldValue)
                    (checkMinlength field (stringOf fieldValue)
                       (checkPassword P field (stringOf fieldValue)
                          (checkEmail field (stringOf fieldValue) errs)))))"

text \<open>\<open>forEach\<close> with a callback that may throw: the first exception ends the loop.\<close>

fun forEach :: "('a \<Rightarrow> 's \<Rightarrow> js_error + 's) \<Rightarrow> 'a list \<Rightarrow> 's \<Rightarrow> js_error + 's" where
  "forEach f [] s = Inr s"
| "forEach f (x # xs) s = (case f x s of Inl err \<Rightarrow> Inl err | Inr s' \<Rightarrow> forEach f xs s')"

definition validate :: "platform \<Rightarrow> form \<Rightarrow> js_error + ValidationResult" where
  "validate P f =
     (case forEach (checkField P (formData f)) (querySelectorAll_required f) [] of
        Inl err \<Rightarrow> Inl err
      | Inr errs \<Rightarrow> Inr \<lparr>valid = (length (map fst errs) = 0), errors = errs\<rparr>)"

text \<open>
  The rules of the specification, each as the message it gives for a field and a value
  that is not blank, and the message a field ends with: that of the last rule violated,
  in the order email, password, minimum length, maximum length, pattern.
\<close>

definition emailRule :: "element \<Rightarrow> string \<Rightarrow> message option" where
  "emailRule field v = (if type field = ''email'' \<and> \<not> validateEmail v then Some EmailMsg else None)"

definition passwordRule :: "platform \<Rightarrow> element \<Rightarrow> string \<Rightarrow> message option" where
  "passwordRule P field v =
     (if type field = ''password'' then
        (case getAttribute field ''minlength'' of
           None \<Rightarrow> if length v < 8 then Some (PasswordMsg ''8'') else None
         | Some a \<Rightarrow>
             if a = [] then (if length v < 8 then Some (PasswordMsg ''8'') else None)
             else if lessThanString P (length v) a then Some (PasswordMsg a) else None)
      else None)"

definition minlengthRule :: "element \<Rightarrow> string \<Rightarrow> message option" where
  "minlengthRule field v =
     (case getAttribute field ''minlength'' of
        None \<Rightarrow> None
      | Some a \<Rightarrow> if shorterThan v (parseInt a) then Some (MinLengthMsg a) else None)"

definition maxlengthRule :: "element \<Rightarrow> string \<Rightarrow> message option" where
  "maxlengthRule field v =
     (case getAttribute field ''maxlength'' of
        None \<Rightarrow> None
      | Some a \<Rightarrow> if longerThan v (parseInt a) then Some (MaxLengthMsg a) else None)"

definition patternRule :: "platform \<Rightarrow> element \<Rightarrow> string \<Rightarrow> message option" where
  "patternRule P field v =
     (case getAttribute field ''pattern'' of
        None \<Rightarrow> None
      | Some p \<Rightarrow>
          (case RegExp P p of
             Inl err \<Rightarrow> None
           | Inr test \<Rightarrow> if \<not> test v then Some (patternMessage field) else None))"

definition lastViolation :: "platform \<Rightarrow> element \<Rightarrow> string \<Rightarrow> message option" where
  "lastViolation P field v =
     (case patternRule P field v of
        Some m \<Rightarrow> Some m
      | None \<Rightarrow>
          (case maxlengthRule field v of
             Some m \<Rightarrow> Some m
           | None \<Rightarrow>
               (case minlengthRule field v of
                  Some m \<Rightarrow> Some m
                | None \<Rightarrow>
                    (case passwordRule P field v of
                       Some m \<Rightarrow> Some m
                     | None \<Rightarrow> emailRule field v))))"

definition fieldLabel :: "element \<Rightarrow> string" where
  "fieldLabel field = (if placeholder field \<noteq> [] then placeholder field else name field)"

definition verdict :: "platform \<Rightarrow> (string \<times> entryValue) list \<Rightarrow> element \<Rightarrow> message option" where
  "verdict P fd field =
     (if isBlank (formData_get fd (name field)) = Inr True then
        Some (RequiredMsg (fieldLabel field))
      else lastViolation P field (stringOf (formData_get fd (name field))))"


section \<open>Showing and clearing the errors (FormValidator.displayErrors, clearErrors)\<close>

definition classList_add :: "string \<Rightarrow> string list \<Rightarrow> string list" where
  "classList_add c cs = (if c \<in> set cs then cs else cs @ [c])"

definition classList_remove :: "string \<Rightarrow> string list \<Rightarrow> string list" where
  "classList_remove c cs = removeAll c cs"

fun findIndex :: "('a \<Rightarrow> bool) \<Rightarrow> 'a list \<Rightarrow> nat option" where
  "findIndex p [] = None"
| "findIndex p (x # xs) = (if p x then Some 0 else map_option Suc (findIndex p xs))"

text \<open>\<open>document.querySelector(q)\<close>: the position of the first element the selector
  matches.\<close>

definition querySelector :: "platform \<Rightarrow> string \<Rightarrow> element list \<Rightarrow> js_error + nat option" where
  "querySelector P q doc =
     (case selector P q of Inl err \<Rightarrow> Inl err | Inr matches \<Rightarrow> Inr (findIndex matches doc))"

definition getElementById :: "element list \<Rightarrow> string \<Rightarrow> nat option" where
  "getElementById doc i = findIndex (\<lambda>el. getAttribute el ''id'' = Some i) doc"

text \<open>\<open>clearErrors\<close>: the class \<open>error\<close> leaves every element that has it; then every
  element of class \<open>error-message\<close> loses its text and is hidden.\<close>

definition clearErrors :: "element list \<Rightarrow> element list" where
  "clearErrors doc =
     (let doc1 =
            map (\<lambda>field.
                   if ''error'' \<in> set (classList field) then
                     field\<lparr>classList := classList_remove ''error'' (classList field)\<rparr>
                   else field) doc
      in map (\<lambda>el.
                if ''error-message'' \<in> set (classList el) then
                  el\<lparr>textContent := [], display := ''none''\<rparr>
                else el) doc1)"

text \<open>
  The callback of \<open>Object.keys(errors).forEach\<close> for one property. The selector is the
  text the template builds around the name. A new \<open>span\<close> becomes the next sibling of the
  field; the field is taken to have no elements below it, so the span is the next element
  of the list.
\<close>

definition displayError ::
  "platform \<Rightarrow> string \<Rightarrow> string \<Rightarrow> element list \<Rightarrow> js_error + element list" where
  "displayError P fieldName errorMessage doc =
     (case querySelector P (''[name='' @ [CHR 0x22] @ fieldName @ [CHR 0x22] @ '']'') doc of
        Inl err \<Rightarrow> Inl err
      | Inr None \<Rightarrow> Inr doc
      | Inr (Some i) \<Rightarrow>
          let doc1 =
                doc[i := (doc ! i)\<lparr>classList := classList_add ''error'' (classList (doc ! i))\<rparr>]
          in (case getElementById doc1 (fieldName @ ''-error'') of
                Some j \<Rightarrow>
                  Inr (doc1[j := (doc1 ! j)\<lparr>textContent := errorMessage,
                                              display := ''block''\<rparr>])
              | None \<Rightarrow>
                  Inr (take (Suc i) doc1
                       @ [\<lparr>localName = ''span'',
                           attrs = [(''id'', fieldName @ ''-error'')],
                           type = [],
                           classList = [''error-message''],
                           textContent = errorMessage,
                           display = ''block''\<rparr>]
                       @ drop (Suc i) doc1)))"

text \<open>The loop over the properties; an exception ends it and leaves the document as the
  earlier rounds made it.\<close>

fun displayLoop ::
  "platform \<Rightarrow> (string \<times> string) list \<Rightarrow> element list \<Rightarrow> element list \<times> js_error option" where
  "displayLoop P [] doc = (doc, None)"
| "displayLoop P ((fieldName, errorMessage) # rest) doc =
     (case displayError P fieldName errorMessage doc of
        Inl err \<Rightarrow> (doc, Some err)
      | Inr doc' \<Rightarrow> displayLoop P rest doc')"

text \<open>\<open>displayErrors\<close>: the document afterwards and the exception, if one left the
  function. The argument lists the properties of \<open>errors\<close> in the order of
  \<open>Object.keys\<close>.\<close>

definition displayErrors ::
  "platform \<Rightarrow> (string \<times> string) list \<Rightarrow> element list \<Rightarrow> element list \<times> js_error option" where
  "displayErrors P errs doc = displayLoop P errs (clearErrors doc)"

text \<open>What \<open>clearErrors\<close> makes of one element.\<close>

definition clearedElement :: "element \<Rightarrow> element" where
  "clearedElement el =
     (let el1 = (if ''error'' \<in> set (classList el)
                 then el\<lparr>classList := classList_remove ''error'' (classList el)\<rparr>
                 else el)
      in if ''error-message'' \<in> set (classList el1)
         then el1\<lparr>textContent := [], display := ''none''\<rparr> else el1)"

section \<open>The resilient fetch (src/js/utils.js, fetchWithErrorHandling)\<close>

text \<open>
  Values as JavaScript has them after \<open>response.json()\<close>; \<open>Undefined\<close> is what a function
  returns when it falls off its end. Numbers are modelled by integers.
\<close>

datatype jsval =
    Undefined
  | Null
  | Bool bool
  | Number int
  | String string
  | Array "jsval list"
  | Object "(string \<times> jsval) list"

text \<open>What \<open>await fetch(url, ...)\<close> gives on one attempt: a rejection, or a response
  with its \<open>ok\<close> flag, status line and the outcome of decoding its body.\<close>

record response =
  ok :: bool
  status :: nat
  statusText :: string
  json :: "js_error + jsval"

datatype attempt = Rejected js_error | Responded response

text \<open>
  The world outside the function: \<open>net i\<close> is the outcome of the \<open>i\<close>-th call of \<open>fetch\<close>
  (a rejection named \<open>AbortError\<close> is what the abort after 10000 ms produces) and \<open>onLine\<close>
  is \<open>navigator.onLine\<close> when the error is handled.
\<close>

record env =
  net :: "nat \<Rightarrow> attempt"
  onLine :: bool

text \<open>The three texts of \<open>handleNetworkError\<close>: time exceeded, no connection to the
  internet, connection error.\<close>

datatype notice = TimeoutNotice | OfflineNotice | ConnectionNotice

text \<open>The fixed first argument of each \<open>console.error\<close>: in \<open>handleNetworkError\<close>, in
  \<open>getOnlinePlayersCount\<close> and in \<open>updateStats\<close>.\<close>

datatype log_label = NetworkErrorLabel | StatsFetchLabel | StatsUpdateLabel

text \<open>What the function does to the outside, in order: the \<open>i\<close>-th call of \<open>fetch\<close>, a
  wait of so many milliseconds, a toast of a class with a text, a line on the console.\<close>

datatype effect =
    Fetch nat
  | Delay nat
  | Toast string notice
  | ConsoleError log_label js_error

definition maxRetries :: nat where
  "maxRetries = 3"

definition retryDelay :: nat where
  "retryDelay = 1000"

fun decimal :: "nat \<Rightarrow> string" where
  "decimal n =
     (if n < 10 then [char_of (n + 48)] else decimal (n div 10) @ [char_of (n mod 10 + 48)])"

declare decimal.simps [simp del]

text \<open>The body of the \<open>try\<close> block: \<open>Inl\<close> is the error thrown, \<open>Inr\<close> the value returned.\<close>

definition attempt_body :: "env \<Rightarrow> nat \<Rightarrow> js_error + jsval" where
  "attempt_body e attempt =
     (case net e attempt of
        Rejected err \<Rightarrow> Inl err
      | Responded r \<Rightarrow>
          if \<not> ok r then
            Inl \<lparr>error_name = ''Error'',
                 error_message = ''HTTP '' @ decimal (status r) @ '': '' @ statusText r\<rparr>
          else json r)"

definition showToast :: "notice \<Rightarrow> string \<Rightarrow> effect list" where
  "showToast msg toastType = [Toast toastType msg]"

definition showErrorToast :: "notice \<Rightarrow> effect list" where
  "showErrorToast msg = showToast msg ''error''"

definition handleNetworkError :: "env \<Rightarrow> js_error \<Rightarrow> effect list" where
  "handleNetworkError e err =
     (if error_name err = ''AbortError'' then showErrorToast TimeoutNotice
      else if \<not> onLine e then showErrorToast OfflineNotice
      else showErrorToast ConnectionNotice)
     @ [ConsoleError NetworkErrorLabel err]"

text \<open>The \<open>for\<close> loop from a given value of \<open>attempt\<close>; the result is the trace of effects
  and either the error thrown or the value returned.\<close>

function attempt_loop :: "env \<Rightarrow> nat \<Rightarrow> effect list \<times> (js_error + jsval)" where
  "attempt_loop e attempt =
     (if attempt \<le> maxRetries then
        (case attempt_body e attempt of
           Inr data \<Rightarrow> ([Fetch attempt], Inr data)
         | Inl err \<Rightarrow>
             if attempt = maxRetries then
               (Fetch attempt # handleNetworkError e err, Inl err)
             else
               (case attempt_loop e (attempt + 1) of
                  (fx, r) \<Rightarrow> (Fetch attempt # Delay (retryDelay * attempt) # fx, r)))
      else ([], Inr Undefined))"
  by pat_completeness auto
termination
  by (relation "measure (\<lambda>(e, attempt). maxRetries + 1 - attempt)") auto

declare attempt_loop.simps [simp del]

definition fetchWithErrorHandling :: "env \<Rightarrow> effect list \<times> (js_error + jsval)" where
  "fetchWithErrorHandling e = attempt_loop e 1"

text \<open>Readers of a trace.\<close>

definition fetches :: "effect list \<Rightarrow> nat list" where
  "fetches fx = concat (map (\<lambda>x. case x of Fetch i \<Rightarrow> [i] | _ \<Rightarrow> []) fx)"

definition delays :: "effect list \<Rightarrow> nat list" where
  "delays fx = concat (map (\<lambda>x. case x of Delay d \<Rightarrow> [d] | _ \<Rightarrow> []) fx)"

definition toasts :: "effect list \<Rightarrow> (string \<times> notice) list" where
  "toasts fx = concat (map (\<lambda>x. case x of Toast c n \<Rightarrow> [(c, n)] | _ \<Rightarrow> []) fx)"

definition logged :: "effect list \<Rightarrow> (log_label \<times> js_error) list" where
  "logged fx = concat (map (\<lambda>x. case x of ConsoleError l err \<Rightarrow> [(l, err)] | _ \<Rightarrow> []) fx)"

text \<open>What follows the last attempt the loop allows, if that attempt was made.\<close>

definition after_final :: "effect list \<Rightarrow> effect list" where
  "after_final fx = tl (dropWhile (\<lambda>x. x \<noteq> Fetch maxRetries) fx)"

text \<open>The classification of the specification, from the error of the final attempt.\<close>

definition classify :: "env \<Rightarrow> js_error \<Rightarrow> notice" where
  "classify e err =
     (if error_name err = ''AbortError'' then TimeoutNotice
      else if \<not> onLine e then OfflineNotice else ConnectionNotice)"

section \<open>The statistics module (src/js/stats.js, StatsModule)\<close>

record StatsModule =
  apiEndpoint :: string
  updateInterval :: "nat option"
  lastKnownCount :: "int option"
  isUpdating :: bool

definition constructor :: "string \<Rightarrow> StatsModule" where
  "constructor endpoint =
     \<lparr>apiEndpoint = endpoint, updateInterval = None, lastKnownCount = None,
      isUpdating = False\<rparr>"

text \<open>\<open>data && typeof data.onlinePlayers === 'number'\<close>: the number, when there is one.\<close>

definition onlinePlayers :: "jsval \<Rightarrow> int option" where
  "onlinePlayers data =
     (case data of
        Object props \<Rightarrow>
          (case map_of props ''onlinePlayers'' of Some (Number n) \<Rightarrow> Some n | _ \<Rightarrow> None)
      | _ \<Rightarrow> None)"

text \<open>
  \<open>getOnlinePlayersCount\<close>: the effects, what the call returns (\<open>Inl\<close> an exception that
  leaves the function, \<open>Inr None\<close> the value \<open>null\<close>) and the module afterwards. The value
  of the \<open>try\<close> block comes first, then the \<open>catch\<close> clause.
\<close>

definition getOnlinePlayersCount ::
  "env \<Rightarrow> StatsModule \<Rightarrow> effect list \<times> (js_error + int option) \<times> StatsModule" where
  "getOnlinePlayersCount e m =
     (case fetchWithErrorHandling e of
        (fx, Inr data) \<Rightarrow>
          (case onlinePlayers data of
             Some n \<Rightarrow> (fx, Inr (Some n), m\<lparr>lastKnownCount := Some n\<rparr>)
           | None \<Rightarrow>
               (fx, Inr (if lastKnownCount m \<noteq> None then lastKnownCount m else Some 0), m))
      | (fx, Inl err) \<Rightarrow>
          (fx @ [ConsoleError StatsFetchLabel err], Inr (lastKnownCount m), m))"

text \<open>
  The page as the module sees it: the element \<open>player-stats\<close> and the element
  \<open>stats-timestamp\<close>, each of which may be missing. The texts written are the count, the
  last count marked as stale, the word for unavailable, and the time of the update.
\<close>

datatype stats_text = CountText int | StaleText int | UnavailableText | OtherText string

record stats_element =
  stats_text :: stats_text
  stats_classes :: "string list"

record page =
  player_stats :: "stats_element option"
  stats_timestamp :: "string option option"

definition updateTimestamp :: "string \<Rightarrow> page \<Rightarrow> page" where
  "updateTimestamp clock pg =
     (case stats_timestamp pg of
        None \<Rightarrow> pg
      | Some _ \<Rightarrow> pg\<lparr>stats_timestamp := Some (Some clock)\<rparr>)"

definition displayStatsUnavailable :: "StatsModule \<Rightarrow> page \<Rightarrow> page" where
  "displayStatsUnavailable m pg =
     (case player_stats pg of
        None \<Rightarrow> pg
      | Some el \<Rightarrow>
          let el1 =
                (case lastKnownCount m of
                   Some n \<Rightarrow>
                     el\<lparr>stats_text := StaleText n,
                        stats_classes := classList_add ''unavailable'' (stats_classes el)\<rparr>
                 | None \<Rightarrow>
                     el\<lparr>stats_text := UnavailableText,
                        stats_classes := classList_add ''error'' (stats_classes el)\<rparr>)
          in pg\<lparr>player_stats :=
                  Some (el1\<lparr>stats_classes := classList_remove ''active'' (stats_classes el1)\<rparr>)\<rparr>)"

text \<open>
  \<open>displayStats\<close>. The count is an integer here, so the test that it is a number and not
  \<open>NaN\<close> passes; the removal of the class \<open>updated\<close> after 500 ms is a timer and is left
  out. \<open>clock\<close> is the time of day the timestamp shows.
\<close>

definition displayStats :: "string \<Rightarrow> StatsModule \<Rightarrow> int \<Rightarrow> page \<Rightarrow> page" where
  "displayStats clock m count pg =
     (case player_stats pg of
        None \<Rightarrow> pg
      | Some el \<Rightarrow>
          let el1 =
                el\<lparr>stats_text := CountText count,
                   stats_classes :=
                     classList_add ''active''
                       (classList_remove ''unavailable''
                          (classList_remove ''error'' (stats_classes el)))\<rparr>;
              el2 =
                (if lastKnownCount m \<noteq> None \<and> lastKnownCount m \<noteq> Some count then
                   el1\<lparr>stats_classes := classList_add ''updated'' (stats_classes el1)\<rparr>
                 else el1)
          in updateTimestamp clock (pg\<lparr>player_stats := Some el2\<rparr>))"

text \<open>
  \<open>updateStats\<close> is an \<open>async\<close> function: it runs from its call to the \<open>await\<close> in one
  piece and from the settling of the awaited promise to its end in another, and other
  code runs in between. \<open>updateStats_enter\<close> is the first piece (\<open>None\<close>: the guard
  returned), \<open>updateStats_resume\<close> the second, with \<open>try\<close>, \<open>catch\<close> and \<open>finally\<close>.
\<close>

definition updateStats_enter :: "StatsModule \<Rightarrow> StatsModule option" where
  "updateStats_enter m = (if isUpdating m then None else Some (m\<lparr>isUpdating := True\<rparr>))"

definition updateStats_resume ::
  "env \<Rightarrow> string \<Rightarrow> StatsModule \<times> page \<Rightarrow> effect list \<times> StatsModule \<times> page" where
  "updateStats_resume e clock st =
     (case st of (m, pg) \<Rightarrow>
        (case getOnlinePlayersCount e m of
           (fx, Inr (Some count), m1) \<Rightarrow>
             (fx, m1\<lparr>isUpdating := False\<rparr>, displayStats clock m1 count pg)
         | (fx, Inr None, m1) \<Rightarrow>
             (fx, m1\<lparr>isUpdating := False\<rparr>, displayStatsUnavailable m1 pg)
         | (fx, Inl err, m1) \<Rightarrow>
             (fx @ [ConsoleError StatsUpdateLabel err], m1\<lparr>isUpdating := False\<rparr>,
              displayStatsUnavailable m1 pg)))"

text \<open>
  The module over time. \<open>Invoke\<close> is a call of \<open>updateStats\<close> (by the interval timer or by
  \<open>startAutoUpdate\<close>), \<open>Resume\<close> the settling of the promise a suspended call waits for,
  with the network and the clock it meets. \<open>suspended\<close> counts the calls that passed the
  guard and have not finished; a \<open>Resume\<close> with no suspended call does not happen. The
  effects of a cycle enter the log when the cycle finishes.
\<close>

record world =
  stats :: StatsModule
  dom :: page
  suspended :: nat
  log :: "effect list"

datatype event = Invoke | Resume env string

definition step :: "world \<Rightarrow> event \<Rightarrow> world" where
  "step w ev =
     (case ev of
        Invoke \<Rightarrow>
          (case updateStats_enter (stats w) of
             None \<Rightarrow> w
           | Some m \<Rightarrow> w\<lparr>stats := m, suspended := Suc (suspended w)\<rparr>)
      | Resume e clock \<Rightarrow>
          if suspended w = 0 then w
          else
            (case updateStats_resume e clock (stats w, dom w) of
               (fx, m, pg) \<Rightarrow>
                 w\<lparr>stats := m, dom := pg, suspended := suspended w - 1,
                   log := log w @ fx\<rparr>))"

definition run :: "world \<Rightarrow> event list \<Rightarrow> world" where
  "run w evs = foldl step w evs"

definition initial :: "string \<Rightarrow> page \<Rightarrow> world" where
  "initial endpoint pg = \<lparr>stats = constructor endpoint, dom = pg, suspended = 0, log = []\<rparr>"

text \<open>At most one call is suspended, and the flag is set exactly when one is.\<close>

definition oneAtATime :: "world \<Rightarrow> bool" where
  "oneAtATime w = (suspended w \<le> 1 \<and> (isUpdating (stats w) = (suspended w = 1)))"

section \<open>Examples\<close>

text \<open>A platform for the examples: a pattern is the one text it accepts, except \<open>(\<close>,
  which does not compile; a number is less than a string when it is below the integer
  \<open>parseInt\<close> reads from it; a selector matches the elements whose name it spells out.\<close>

definition samplePlatform :: platform where
  "samplePlatform =
     \<lparr>RegExp = (\<lambda>p. if p = ''('' then
                        Inl \<lparr>error_name = ''SyntaxError'', error_message = ''Unterminated group''\<rparr>
                      else Inr (\<lambda>s. s = p)),
      lessThanString = (\<lambda>n s. shorterThan (replicate n CHR ''x'') (parseInt s)),
      selector =
        (\<lambda>q. Inr (\<lambda>el. case getAttribute el ''name'' of
                         None \<Rightarrow> False
                       | Some n \<Rightarrow> q = ''[name='' @ [CHR 0x22] @ n @ [CHR 0x22] @ '']''))\<rparr>"

text \<open>A network for the examples: one on which every call fails, and one on which the
  second call succeeds.\<close>

definition sampleError :: js_error where
  "sampleError = \<lparr>error_name = ''TypeError'', error_message = ''Failed to fetch''\<rparr>"

definition sampleResponse :: response where
  "sampleResponse =
     \<lparr>ok = True, status = 200, statusText = ''OK'',
      json = Inr (Object [(''onlinePlayers'', Number 42)])\<rparr>"

definition downEnv :: env where
  "downEnv = \<lparr>net = (\<lambda>i. Rejected sampleError), onLine = True\<rparr>"

definition flakyEnv :: env where
  "flakyEnv =
     \<lparr>net = (\<lambda>i. if i < 2 then Rejected sampleError else Responded sampleResponse),
      onLine = True\<rparr>"

text \<open>A network whose answer holds no count.\<close>

definition emptyEnv :: env where
  "emptyEnv =
     \<lparr>net = (\<lambda>i. Responded \<lparr>ok = True, status = 200, statusText = ''OK'',
                             json = Inr (Object [])\<rparr>),
      onLine = True\<rparr>"

text \<open>A page with both elements, for the examples.\<close>

definition samplePage :: page where
  "samplePage =
     \<lparr>player_stats = Some \<lparr>stats_text = OtherText ''...'', stats_classes = []\<rparr>,
      stats_timestamp = Some None\<rparr>"

text \<open>A page for the examples: a field named \<open>email\<close> and nothing to hold its message.\<close>

definition sampleDocument :: "element list" where
  "sampleDocument =
     [\<lparr>localName = ''input'', attrs = [(''name'', ''email''), (''required'', [])],
       type = ''email'', classList = [], textContent = [], display = []\<rparr>]"

text \<open>Fields and forms for the examples.\<close>

definition emailInput :: element where
  "emailInput =
     \<lparr>localName = ''input'',
      attrs = [(''name'', ''email''), (''required'', []), (''placeholder'', ''Email''),
               (''minlength'', ''8'')],
      type = ''email'', classList = [], textContent = [], display = []\<rparr>"



definition shortEmailForm :: form where
  "shortEmailForm = \<lparr>elements = [emailInput], formData = [(''email'', Text ''abcde'')]\<rparr>"







text \<open>A page on which the element for the message of the field \<open>email\<close> is there already,
  under its id and without a class.\<close>

definition staleDocument :: "element list" where
  "staleDocument =
     [\<lparr>localName = ''input'', attrs = [(''name'', ''email''), (''required'', [])],
       type = ''email'', classList = [], textContent = [], display = []\<rparr>,
      \<lparr>localName = ''span'', attrs = [(''id'', ''email-error'')], type = [],
       classList = [], textContent = [], display = []\<rparr>]"



section \<open>Properties of the email predicate\<close>

lemma regex_test_Lit:
  "regex_test (Lit c # r) s = (\<exists>b. s = c # b \<and> regex_test r b)"
  by (cases s) auto

lemma regex_test_ClassPlus:
  "regex_test (ClassPlus p # r) s =
     (\<exists>a b. s = a @ b \<and> a \<noteq> [] \<and> (\<forall>c \<in> set a. p c) \<and> regex_test r b)"
proof (induction s)
  case Nil
  then show ?case by simp
next
  case (Cons x xs)
  show ?case
  proof
    assume m: "regex_test (ClassPlus p # r) (x # xs)"
    then have px: "p x" by simp
    from m consider "regex_test r xs" | "regex_test (ClassPlus p # r) xs" by auto
    then show "\<exists>a b. x # xs = a @ b \<and> a \<noteq> [] \<and> (\<forall>c \<in> set a. p c) \<and> regex_test r b"
    proof cases
      case 1
      with px have "x # xs = [x] @ xs \<and> [x] \<noteq> [] \<and> (\<forall>c \<in> set [x]. p c) \<and> regex_test r xs"
        by simp
      then show ?thesis by blast
    next
      case 2
      with Cons.IH obtain a b where
        ab: "xs = a @ b" "\<forall>c \<in> set a. p c" "regex_test r b" by blast
      with px have
        "x # xs = (x # a) @ b \<and> x # a \<noteq> [] \<and> (\<forall>c \<in> set (x # a). p c) \<and> regex_test r b"
        by simp
      then show ?thesis by blast
    qed
  next
    assume "\<exists>a b. x # xs = a @ b \<and> a \<noteq> [] \<and> (\<forall>c \<in> set a. p c) \<and> regex_test r b"
    then obtain a b where
      ab: "x # xs = a @ b" "a \<noteq> []" "\<forall>c \<in> set a. p c" "regex_test r b" by blast
    then obtain a' where a: "a = x # a'" by (cases a) auto
    with ab have px: "p x" and xs: "xs = a' @ b" and pa: "\<forall>c \<in> set a'. p c" by auto
    show "regex_test (ClassPlus p # r) (x # xs)"
    proof (cases "a' = []")
      case True
      with xs ab(4) px show ?thesis by simp
    next
      case False
      with xs pa ab(4) Cons.IH have "regex_test (ClassPlus p # r) xs" by blast
      with px show ?thesis by simp
    qed
  qed
qed

lemma segment_notSpaceAt:
  "segment s = (s \<noteq> [] \<and> (\<forall>c \<in> set s. notSpaceAt c))"
  by (simp add: segment_def notSpaceAt_def)

lemma validateEmail_shape: "validateEmail s = email_shape s"
proof
  assume "validateEmail s"
  then obtain l r1 where 1: "s = l @ r1" "segment l"
      and 2: "regex_test [Lit CHR ''@'', ClassPlus notSpaceAt, Lit CHR ''.'', ClassPlus notSpaceAt] r1"
    unfolding validateEmail_def emailRegex_def regex_test_ClassPlus segment_notSpaceAt
    by blast
  from 2 obtain r2 where 3: "r1 = CHR ''@'' # r2"
      and 4: "regex_test [ClassPlus notSpaceAt, Lit CHR ''.'', ClassPlus notSpaceAt] r2"
    unfolding regex_test_Lit by blast
  from 4 obtain d r3 where 5: "r2 = d @ r3" "segment d"
      and 6: "regex_test [Lit CHR ''.'', ClassPlus notSpaceAt] r3"
    unfolding regex_test_ClassPlus segment_notSpaceAt by blast
  from 6 obtain r4 where 7: "r3 = CHR ''.'' # r4"
      and 8: "regex_test [ClassPlus notSpaceAt] r4"
    unfolding regex_test_Lit by blast
  from 8 have "segment r4"
    unfolding regex_test_ClassPlus segment_notSpaceAt by auto
  with 1 3 5 7 have "s = l @ ''@'' @ d @ ''.'' @ r4 \<and> segment l \<and> segment d \<and> segment r4"
    by simp
  then show "email_shape s" unfolding email_shape_def by blast
next
  assume "email_shape s"
  then obtain l d t where s: "s = l @ ''@'' @ d @ ''.'' @ t"
      and seg: "segment l" "segment d" "segment t"
    unfolding email_shape_def by blast
  from seg(3) have "regex_test [ClassPlus notSpaceAt] t"
    unfolding regex_test_ClassPlus segment_notSpaceAt by auto
  then have "regex_test [Lit CHR ''.'', ClassPlus notSpaceAt] (''.'' @ t)"
    by simp
  with seg(2) have "regex_test [ClassPlus notSpaceAt, Lit CHR ''.'', ClassPlus notSpaceAt] (d @ ''.'' @ t)"
    unfolding regex_test_ClassPlus [of notSpaceAt "[Lit CHR ''.'', ClassPlus notSpaceAt]"]
      segment_notSpaceAt by blast
  then have "regex_test [Lit CHR ''@'', ClassPlus notSpaceAt, Lit CHR ''.'', ClassPlus notSpaceAt]
      (''@'' @ d @ ''.'' @ t)"
    by simp
  with seg(1) have "regex_test emailRegex (l @ ''@'' @ d @ ''.'' @ t)"
    unfolding emailRegex_def
      regex_test_ClassPlus [of notSpaceAt
        "[Lit CHR ''@'', ClassPlus notSpaceAt, Lit CHR ''.'', ClassPlus notSpaceAt]"]
      segment_notSpaceAt by blast
  with s show "validateEmail s" by (simp add: validateEmail_def)
qed

text \<open>
  C7. The email predicate is a function of its argument alone and holds exactly of the
  strings of the shape segment, \<open>@\<close>, segment, dot, segment; it accepts \<open>a@b.co\<close> and
  rejects \<open>a@b\<close> and \<open>a b@c.com\<close>.
\<close>

theorem validateEmail_spec:
  "validateEmail s = email_shape s
   \<and> validateEmail ''a@b.co'' \<and> \<not> validateEmail ''a@b'' \<and> \<not> validateEmail ''a b@c.com''"
proof -
  have "validateEmail ''a@b.co''"
    by (simp add: validateEmail_def emailRegex_def notSpaceAt_def isWhiteSpace_def)
  moreover have "\<not> validateEmail ''a@b''"
    by (simp add: validateEmail_def emailRegex_def notSpaceAt_def isWhiteSpace_def)
  moreover have "\<not> validateEmail ''a b@c.com''"
    by (simp add: validateEmail_def emailRegex_def notSpaceAt_def isWhiteSpace_def)
  ultimately show ?thesis using validateEmail_shape by blast
qed

theorem validateEmail_spec_witness: "email_shape ''a@b.co''"
  using validateEmail_spec [of "''a@b.co''"] by blast

section \<open>Properties of the resilient fetch\<close>

lemma loop3: "attempt_loop e 3 =
   (case attempt_body e 3 of Inr data \<Rightarrow> ([Fetch 3], Inr data)
    | Inl err \<Rightarrow> (Fetch 3 # handleNetworkError e err, Inl err))"
  by (subst attempt_loop.simps) (simp add: maxRetries_def split: sum.splits)

lemma loop2: "attempt_loop e 2 =
   (case attempt_body e 2 of Inr data \<Rightarrow> ([Fetch 2], Inr data)
    | Inl err \<Rightarrow> (case attempt_loop e 3 of (fx, r) \<Rightarrow> (Fetch 2 # Delay 2000 # fx, r)))"
  by (subst attempt_loop.simps) (simp add: maxRetries_def retryDelay_def split: sum.splits)

lemma loop1: "attempt_loop e 1 =
   (case attempt_body e 1 of Inr data \<Rightarrow> ([Fetch 1], Inr data)
    | Inl err \<Rightarrow> (case attempt_loop e 2 of (fx, r) \<Rightarrow> (Fetch 1 # Delay 1000 # fx, r)))"
  by (subst attempt_loop.simps) (simp add: maxRetries_def retryDelay_def numeral_2_eq_2 split: sum.splits)

lemma fetch_cases:
  "fetchWithErrorHandling e =
     (case attempt_body e 1 of
        Inr d1 \<Rightarrow> ([Fetch 1], Inr d1)
      | Inl e1 \<Rightarrow>
          (case attempt_body e 2 of
             Inr d2 \<Rightarrow> ([Fetch 1, Delay 1000, Fetch 2], Inr d2)
           | Inl e2 \<Rightarrow>
               (case attempt_body e 3 of
                  Inr d3 \<Rightarrow> ([Fetch 1, Delay 1000, Fetch 2, Delay 2000, Fetch 3], Inr d3)
                | Inl e3 \<Rightarrow>
                    ([Fetch 1, Delay 1000, Fetch 2, Delay 2000, Fetch 3]
                       @ handleNetworkError e e3, Inl e3))))"
  unfolding fetchWithErrorHandling_def loop1 loop2 loop3
  by (simp split: sum.splits)

lemma handle_toasts: "toasts (handleNetworkError e err) = [(''error'', classify e err)]"
  by (simp add: handleNetworkError_def toasts_def classify_def showErrorToast_def showToast_def)

lemma handle_logged: "logged (handleNetworkError e err) = [(NetworkErrorLabel, err)]"
  by (simp add: handleNetworkError_def logged_def showErrorToast_def showToast_def)

lemma handle_fetches: "fetches (handleNetworkError e err) = []"
  by (simp add: handleNetworkError_def fetches_def showErrorToast_def showToast_def)

lemma handle_delays: "delays (handleNetworkError e err) = []"
  by (simp add: handleNetworkError_def delays_def showErrorToast_def showToast_def)

lemma handle_no_Delay: "Delay d \<notin> set (handleNetworkError e err)"
  by (simp add: handleNetworkError_def showErrorToast_def showToast_def)

lemma fetches_simps:
  "fetches [] = []" "fetches (Fetch i # fx) = i # fetches fx"
  "fetches (Delay d # fx) = fetches fx" "fetches (Toast c n # fx) = fetches fx"
  "fetches (ConsoleError l err # fx) = fetches fx"
  by (simp_all add: fetches_def)

lemma delays_simps:
  "delays [] = []" "delays (Fetch i # fx) = delays fx"
  "delays (Delay d # fx) = d # delays fx" "delays (Toast c n # fx) = delays fx"
  "delays (ConsoleError l err # fx) = delays fx"
  by (simp_all add: delays_def)

lemma toasts_simps:
  "toasts [] = []" "toasts (Fetch i # fx) = toasts fx"
  "toasts (Delay d # fx) = toasts fx" "toasts (Toast c n # fx) = (c, n) # toasts fx"
  "toasts (ConsoleError l err # fx) = toasts fx"
  by (simp_all add: toasts_def)

lemma logged_simps:
  "logged [] = []" "logged (Fetch i # fx) = logged fx"
  "logged (Delay d # fx) = logged fx" "logged (Toast c n # fx) = logged fx"
  "logged (ConsoleError l err # fx) = (l, err) # logged fx"
  by (simp_all add: logged_def)

lemma upt_1_4: "[Suc 0..<4] = [Suc 0, 2, 3]"
  by (simp add: upt_rec)

text \<open>
  C3. When every attempt fails, the attempts made are exactly \<open>1, \<dots>, maxRetries\<close>, three
  of them; one toast is shown, of class \<open>error\<close> and with the text that classifies the
  error of the last attempt (timeout for an \<open>AbortError\<close>, else offline when
  \<open>navigator.onLine\<close> is false, else connection error); that error is logged once; and
  the call throws it.
\<close>

theorem fetch_exhausted:
  assumes "\<forall>i \<in> {1..maxRetries}. \<exists>err. attempt_body e i = Inl err"
  shows "\<exists>err. attempt_body e maxRetries = Inl err
           \<and> snd (fetchWithErrorHandling e) = Inl err
           \<and> fetches (fst (fetchWithErrorHandling e)) = [1..<Suc maxRetries]
           \<and> length (fetches (fst (fetchWithErrorHandling e))) = maxRetries
           \<and> maxRetries = 3
           \<and> toasts (fst (fetchWithErrorHandling e)) = [(''error'', classify e err)]
           \<and> logged (fst (fetchWithErrorHandling e)) = [(NetworkErrorLabel, err)]"
proof -
  have "(1::nat) \<in> {1..maxRetries}" "(2::nat) \<in> {1..maxRetries}" "(3::nat) \<in> {1..maxRetries}"
    by (simp_all add: maxRetries_def)
  with assms obtain e1 e2 e3 where
    b: "attempt_body e 1 = Inl e1" "attempt_body e 2 = Inl e2" "attempt_body e 3 = Inl e3"
    by blast
  then have f: "fetchWithErrorHandling e =
      ([Fetch 1, Delay 1000, Fetch 2, Delay 2000, Fetch 3] @ handleNetworkError e e3, Inl e3)"
    by (simp add: fetch_cases)
  show ?thesis
    using b(3) f
    by (simp add: maxRetries_def fetches_simps toasts_simps logged_simps
        handle_toasts handle_logged handle_fetches upt_1_4)
qed

lemma after_final_simps:
  "after_final [] = []"
  "after_final (Fetch 3 # fx) = fx"
  "i \<noteq> 3 \<Longrightarrow> after_final (Fetch i # fx) = after_final fx"
  "after_final (Delay d # fx) = after_final fx"
  by (simp_all add: after_final_def maxRetries_def)

lemma trace_cases:
  "fst (fetchWithErrorHandling e) = [Fetch 1]
   \<or> fst (fetchWithErrorHandling e) = [Fetch 1, Delay 1000, Fetch 2]
   \<or> fst (fetchWithErrorHandling e) = [Fetch 1, Delay 1000, Fetch 2, Delay 2000, Fetch 3]
   \<or> (\<exists>err. fst (fetchWithErrorHandling e) =
         [Fetch 1, Delay 1000, Fetch 2, Delay 2000, Fetch 3] @ handleNetworkError e err)"
  unfolding fetch_cases by (auto split: sum.splits)

lemma delays_of_trace:
  "delays (fst (fetchWithErrorHandling e)) =
     map (\<lambda>j. retryDelay * j) [1..<length (fetches (fst (fetchWithErrorHandling e)))]"
proof -
  have u: "[1..<Suc 0] = []" "[1..<2] = [1]" "[1..<3] = [1, 2]"
    by (simp_all add: upt_rec)
  consider "fst (fetchWithErrorHandling e) = [Fetch 1]"
    | "fst (fetchWithErrorHandling e) = [Fetch 1, Delay 1000, Fetch 2]"
    | "fst (fetchWithErrorHandling e) = [Fetch 1, Delay 1000, Fetch 2, Delay 2000, Fetch 3]"
    | err where "fst (fetchWithErrorHandling e) =
         Fetch 1 # Delay 1000 # Fetch 2 # Delay 2000 # Fetch 3 # handleNetworkError e err"
    using trace_cases [of e] by auto
  then show ?thesis
  proof cases
    case 1
    then show ?thesis by (simp add: delays_simps fetches_simps u)
  next
    case 2
    then show ?thesis by (simp add: delays_simps fetches_simps u retryDelay_def)
  next
    case 3
    then show ?thesis by (simp add: delays_simps fetches_simps u retryDelay_def)
  next
    case 4
    then show ?thesis
      by (simp add: delays_simps fetches_simps u retryDelay_def handle_delays handle_fetches)
  qed
qed

lemma no_delay_after_final:
  "Delay d \<notin> set (after_final (fst (fetchWithErrorHandling e)))"
  using trace_cases [of e] handle_no_Delay [of d e]
  by (auto simp: after_final_simps simp del: One_nat_def)

lemma delay_follows_failure:
  assumes "1 \<le> i" "i < maxRetries" "\<forall>j \<in> {1..i}. \<exists>err. attempt_body e j = Inl err"
  shows "\<exists>pre post. fst (fetchWithErrorHandling e) =
           pre @ [Fetch i, Delay (retryDelay * i), Fetch (Suc i)] @ post"
proof -
  from assms(1,2) have "i = 1 \<or> i = 2" unfolding maxRetries_def by arith
  then consider "i = 1" | "i = 2" by blast
  then show ?thesis
  proof cases
    case 1
    with assms(3) obtain e1 where "attempt_body e 1 = Inl e1" by auto
    then have "\<exists>post. fst (fetchWithErrorHandling e) = [] @ [Fetch 1, Delay 1000, Fetch 2] @ post"
      unfolding fetch_cases by (simp split: sum.splits)
    then obtain post where
      "fst (fetchWithErrorHandling e) = [] @ [Fetch 1, Delay 1000, Fetch 2] @ post"
      by blast
    moreover have "retryDelay * 1 = 1000" "Suc 1 = 2" by (simp_all add: retryDelay_def)
    ultimately show ?thesis using 1 by metis
  next
    case 2
    have "(1::nat) \<in> {1..2}" "(2::nat) \<in> {1..2}" by simp_all
    with 2 assms(3) obtain e1 e2 where
      "attempt_body e 1 = Inl e1" "attempt_body e 2 = Inl e2" by blast
    then have "\<exists>post. fst (fetchWithErrorHandling e) =
         [Fetch 1, Delay 1000] @ [Fetch 2, Delay 2000, Fetch 3] @ post"
      unfolding fetch_cases by (simp split: sum.splits)
    then obtain post where
      "fst (fetchWithErrorHandling e) =
         [Fetch 1, Delay 1000] @ [Fetch 2, Delay 2000, Fetch 3] @ post"
      by blast
    moreover have "retryDelay * 2 = 2000" "Suc 2 = 3" by (simp_all add: retryDelay_def)
    ultimately show ?thesis using 2 by metis
  qed
qed

text \<open>
  C4. When the attempts up to \<open>i < maxRetries\<close> fail, attempt \<open>i\<close> is followed at once
  by a wait of \<open>retryDelay * i\<close> ms, with \<open>retryDelay = 1000\<close>, and then by attempt
  \<open>i + 1\<close>; the waits of a call are these and no others, one between each two attempts
  made, and nothing is waited after the last attempt the loop allows.
\<close>

theorem backoff_delay:
  "(1 \<le> i \<and> i < maxRetries \<and> (\<forall>j \<in> {1..i}. \<exists>err. attempt_body e j = Inl err)
      \<longrightarrow> (\<exists>pre post. fst (fetchWithErrorHandling e) =
             pre @ [Fetch i, Delay (retryDelay * i), Fetch (Suc i)] @ post))
   \<and> retryDelay = 1000
   \<and> delays (fst (fetchWithErrorHandling e)) =
       map (\<lambda>j. retryDelay * j) [1..<length (fetches (fst (fetchWithErrorHandling e)))]
   \<and> (\<forall>d. Delay d \<notin> set (after_final (fst (fetchWithErrorHandling e))))"
  using delay_follows_failure [of i e] delays_of_trace [of e] no_delay_after_final [of _ e]
  by (simp add: retryDelay_def)

lemma downEnv_body: "attempt_body downEnv j = Inl sampleError"
  by (simp add: attempt_body_def downEnv_def)

theorem backoff_delay_witness:
  "\<exists>pre post. fst (fetchWithErrorHandling downEnv) =
     pre @ [Fetch 2, Delay 2000, Fetch 3] @ post"
proof -
  have "(1::nat) \<le> 2 \<and> 2 < maxRetries
        \<and> (\<forall>j \<in> {1..2::nat}. \<exists>err. attempt_body downEnv j = Inl err)"
    by (simp add: maxRetries_def downEnv_body)
  with backoff_delay [of 2 downEnv] show ?thesis
    by (simp add: retryDelay_def)
qed

lemma body_success:
  "net e k = Responded r \<Longrightarrow> ok r \<Longrightarrow> json r = Inr payload \<Longrightarrow> attempt_body e k = Inr payload"
  by (simp add: attempt_body_def)

text \<open>
  C5. When attempt \<open>k \<le> maxRetries\<close> is the first to succeed (the response is \<open>ok\<close> and
  its body decodes), the call returns the decoded payload, the attempts made are
  \<open>1, \<dots>, k\<close>, the last thing done is attempt \<open>k\<close>, the waits are those before the
  attempts \<open>2, \<dots>, k\<close>, and no toast is shown and nothing is logged.
\<close>

theorem fetch_success:
  assumes "1 \<le> k" "k \<le> maxRetries"
    and "\<forall>j \<in> {1..<k}. \<exists>err. attempt_body e j = Inl err"
    and "net e k = Responded r" "ok r" "json r = Inr payload"
  shows "snd (fetchWithErrorHandling e) = Inr payload
         \<and> fetches (fst (fetchWithErrorHandling e)) = [1..<Suc k]
         \<and> last (fst (fetchWithErrorHandling e)) = Fetch k
         \<and> delays (fst (fetchWithErrorHandling e)) = map (\<lambda>j. retryDelay * j) [1..<k]
         \<and> toasts (fst (fetchWithErrorHandling e)) = []
         \<and> logged (fst (fetchWithErrorHandling e)) = []"
proof -
  have u: "[Suc 0..<2] = [Suc 0]" "[Suc 0..<3] = [Suc 0, 2]" "[Suc 0..<4] = [Suc 0, 2, 3]"
    by (simp_all add: upt_rec)
  from assms(4-6) have ok: "attempt_body e k = Inr payload" by (rule body_success)
  from assms(1,2) have "k = 1 \<or> k = 2 \<or> k = 3" unfolding maxRetries_def by arith
  then consider "k = 1" | "k = 2" | "k = 3" by blast
  then show ?thesis
  proof cases
    case 1
    with ok have "fetchWithErrorHandling e = ([Fetch 1], Inr payload)"
      by (simp add: fetch_cases)
    with 1 show ?thesis
      by (simp add: fetches_simps delays_simps toasts_simps logged_simps u)
  next
    case 2
    have "(1::nat) \<in> {1..<2}" by simp
    with 2 assms(3) obtain e1 where "attempt_body e 1 = Inl e1" by blast
    with 2 ok have "fetchWithErrorHandling e = ([Fetch 1, Delay 1000, Fetch 2], Inr payload)"
      by (simp add: fetch_cases)
    with 2 show ?thesis
      by (simp add: fetches_simps delays_simps toasts_simps logged_simps u retryDelay_def)
  next
    case 3
    have "(1::nat) \<in> {1..<3}" "(2::nat) \<in> {1..<3}" by simp_all
    with 3 assms(3) obtain e1 e2 where
      "attempt_body e 1 = Inl e1" "attempt_body e 2 = Inl e2" by blast
    with 3 ok have "fetchWithErrorHandling e =
        ([Fetch 1, Delay 1000, Fetch 2, Delay 2000, Fetch 3], Inr payload)"
      by (simp add: fetch_cases)
    with 3 show ?thesis
      by (simp add: fetches_simps delays_simps toasts_simps logged_simps u retryDelay_def)
  qed
qed

theorem fetch_success_witness:
  "fetchWithErrorHandling flakyEnv =
     ([Fetch 1, Delay 1000, Fetch 2], Inr (Object [(''onlinePlayers'', Number 42)]))"
proof -
  have 1: "(1::nat) \<le> 2" "2 \<le> maxRetries" by (simp_all add: maxRetries_def)
  have 2: "\<forall>j \<in> {1..<2::nat}. \<exists>err. attempt_body flakyEnv j = Inl err"
    by (simp add: attempt_body_def flakyEnv_def)
  have 3: "net flakyEnv 2 = Responded sampleResponse" "ok sampleResponse"
    "json sampleResponse = Inr (Object [(''onlinePlayers'', Number 42)])"
    by (simp_all add: flakyEnv_def sampleResponse_def)
  have "fst (fetchWithErrorHandling flakyEnv) = [Fetch 1, Delay 1000, Fetch 2]"
    by (simp add: fetch_cases attempt_body_def flakyEnv_def sampleResponse_def)
  with fetch_success [OF 1 2 3] show ?thesis
    by (simp add: prod_eq_iff)
qed

theorem fetch_exhausted_witness:
  "snd (fetchWithErrorHandling downEnv) = Inl sampleError
   \<and> toasts (fst (fetchWithErrorHandling downEnv)) = [(''error'', ConnectionNotice)]"
proof -
  have "\<forall>i \<in> {1..maxRetries}. \<exists>err. attempt_body downEnv i = Inl err"
    by (simp add: downEnv_body)
  from fetch_exhausted [OF this] obtain err where
    err: "attempt_body downEnv maxRetries = Inl err"
      "snd (fetchWithErrorHandling downEnv) = Inl err"
      "toasts (fst (fetchWithErrorHandling downEnv)) = [(''error'', classify downEnv err)]"
    by blast
  from err(1) have "err = sampleError" by (simp add: downEnv_body)
  moreover have "classify downEnv sampleError = ConnectionNotice"
    by (simp add: classify_def sampleError_def downEnv_def)
  ultimately show ?thesis using err(2,3) by simp
qed

section \<open>Properties of the statistics module\<close>

lemma getOnlinePlayersCount_cases:
  "getOnlinePlayersCount e m =
     (case snd (fetchWithErrorHandling e) of
        Inl err \<Rightarrow>
          (fst (fetchWithErrorHandling e) @ [ConsoleError StatsFetchLabel err],
           Inr (lastKnownCount m), m)
      | Inr data \<Rightarrow>
          (case onlinePlayers data of
             Some n \<Rightarrow> (fst (fetchWithErrorHandling e), Inr (Some n), m\<lparr>lastKnownCount := Some n\<rparr>)
           | None \<Rightarrow>
               (fst (fetchWithErrorHandling e),
                Inr (Some (case lastKnownCount m of Some n \<Rightarrow> n | None \<Rightarrow> 0)), m)))"
  by (cases "fetchWithErrorHandling e")
    (auto simp: getOnlinePlayersCount_def split: sum.splits option.splits)

lemma getOnlinePlayersCount_returns:
  "\<exists>c. fst (snd (getOnlinePlayersCount e m)) = Inr c"
  by (simp add: getOnlinePlayersCount_cases split: sum.splits option.splits)

lemma getOnlinePlayersCount_keeps:
  "lastKnownCount m \<noteq> None \<Longrightarrow> lastKnownCount (snd (snd (getOnlinePlayersCount e m))) \<noteq> None"
  by (auto simp: getOnlinePlayersCount_cases split: sum.splits option.splits)

lemma resume_stats:
  "fst (snd (updateStats_resume e clock (m, pg))) =
     (snd (snd (getOnlinePlayersCount e m)))\<lparr>isUpdating := False\<rparr>"
  by (cases "getOnlinePlayersCount e m")
    (auto simp: updateStats_resume_def split: sum.splits option.splits)

lemma step_keeps_count:
  "lastKnownCount (stats w) \<noteq> None \<Longrightarrow> lastKnownCount (stats (step w ev)) \<noteq> None"
proof (cases ev)
  case Invoke
  assume "lastKnownCount (stats w) \<noteq> None"
  with Invoke show ?thesis
    by (simp add: step_def updateStats_enter_def)
next
  case (Resume e clock)
  assume a: "lastKnownCount (stats w) \<noteq> None"
  obtain fx m pg where r: "updateStats_resume e clock (stats w, dom w) = (fx, m, pg)"
    by (cases "updateStats_resume e clock (stats w, dom w)") auto
  with resume_stats [of e clock "stats w" "dom w"]
  have "m = (snd (snd (getOnlinePlayersCount e (stats w))))\<lparr>isUpdating := False\<rparr>"
    by simp
  with a getOnlinePlayersCount_keeps [of "stats w" e] have "lastKnownCount m \<noteq> None"
    by simp
  with a Resume r show ?thesis by (simp add: step_def)
qed

lemma run_keeps_count:
  "lastKnownCount (stats w) \<noteq> None \<Longrightarrow> lastKnownCount (stats (run w evs)) \<noteq> None"
  unfolding run_def
proof (induction evs arbitrary: w)
  case Nil
  then show ?case by simp
next
  case (Cons ev evs)
  from Cons.prems have "lastKnownCount (stats (step w ev)) \<noteq> None"
    by (rule step_keeps_count)
  from Cons.IH [OF this] show ?case by simp
qed

text \<open>
  C10. \<open>getOnlinePlayersCount\<close> always returns and never throws. When the fetch fails it
  returns the last known count, \<open>null\<close> if there is none, and leaves the module as it
  was; when the fetch succeeds without a numeric \<open>onlinePlayers\<close> it returns the last known
  count, or 0 if there is none; when there is a number it returns and records it. A new
  module has no count, and a module that has one keeps having one, over one call and over
  every run of the module.
\<close>

theorem getOnlinePlayersCount_total:
  "(\<exists>c. fst (snd (getOnlinePlayersCount e m)) = Inr c)
   \<and> (\<forall>err. snd (fetchWithErrorHandling e) = Inl err \<longrightarrow>
         fst (snd (getOnlinePlayersCount e m)) = Inr (lastKnownCount m)
         \<and> snd (snd (getOnlinePlayersCount e m)) = m)
   \<and> (\<forall>data. snd (fetchWithErrorHandling e) = Inr data \<and> onlinePlayers data = None \<longrightarrow>
         fst (snd (getOnlinePlayersCount e m)) =
           Inr (Some (case lastKnownCount m of Some n \<Rightarrow> n | None \<Rightarrow> 0))
         \<and> snd (snd (getOnlinePlayersCount e m)) = m)
   \<and> (\<forall>data n. snd (fetchWithErrorHandling e) = Inr data \<and> onlinePlayers data = Some n \<longrightarrow>
         fst (snd (getOnlinePlayersCount e m)) = Inr (Some n)
         \<and> lastKnownCount (snd (snd (getOnlinePlayersCount e m))) = Some n)
   \<and> lastKnownCount (constructor endpoint) = None
   \<and> (lastKnownCount m \<noteq> None \<longrightarrow>
         lastKnownCount (snd (snd (getOnlinePlayersCount e m))) \<noteq> None)
   \<and> (lastKnownCount (stats w) \<noteq> None \<longrightarrow> lastKnownCount (stats (run w evs)) \<noteq> None)"
proof -
  have "lastKnownCount (constructor endpoint) = None"
    by (simp add: constructor_def)
  moreover have "\<forall>err. snd (fetchWithErrorHandling e) = Inl err \<longrightarrow>
         fst (snd (getOnlinePlayersCount e m)) = Inr (lastKnownCount m)
         \<and> snd (snd (getOnlinePlayersCount e m)) = m"
    by (simp add: getOnlinePlayersCount_cases)
  moreover have "\<forall>data. snd (fetchWithErrorHandling e) = Inr data \<and> onlinePlayers data = None \<longrightarrow>
         fst (snd (getOnlinePlayersCount e m)) =
           Inr (Some (case lastKnownCount m of Some n \<Rightarrow> n | None \<Rightarrow> 0))
         \<and> snd (snd (getOnlinePlayersCount e m)) = m"
    by (simp add: getOnlinePlayersCount_cases)
  moreover have "\<forall>data n. snd (fetchWithErrorHandling e) = Inr data \<and> onlinePlayers data = Some n \<longrightarrow>
         fst (snd (getOnlinePlayersCount e m)) = Inr (Some n)
         \<and> lastKnownCount (snd (snd (getOnlinePlayersCount e m))) = Some n"
    by (simp add: getOnlinePlayersCount_cases)
  ultimately show ?thesis
    using getOnlinePlayersCount_returns [of e m] getOnlinePlayersCount_keeps [of m e]
      run_keeps_count [of w evs]
    by blast
qed

theorem getOnlinePlayersCount_total_witness:
  "fst (snd (getOnlinePlayersCount downEnv
       ((constructor ''/api/server/stats'')\<lparr>lastKnownCount := Some 7\<rparr>))) = Inr (Some 7)
   \<and> fst (snd (getOnlinePlayersCount emptyEnv (constructor ''/api/server/stats''))) =
       Inr (Some 0)"
proof -
  have 1: "snd (fetchWithErrorHandling downEnv) = Inl sampleError"
    by (simp add: fetch_cases downEnv_body)
  have 2: "snd (fetchWithErrorHandling emptyEnv) = Inr (Object [])
           \<and> onlinePlayers (Object []) = None"
    by (simp add: fetch_cases attempt_body_def emptyEnv_def onlinePlayers_def)
  from 1 getOnlinePlayersCount_total
    [of downEnv "(constructor ''/api/server/stats'')\<lparr>lastKnownCount := Some 7\<rparr>"]
  have "fst (snd (getOnlinePlayersCount downEnv
       ((constructor ''/api/server/stats'')\<lparr>lastKnownCount := Some 7\<rparr>))) = Inr (Some 7)"
    by simp
  moreover from 2 getOnlinePlayersCount_total [of emptyEnv "constructor ''/api/server/stats''"]
  have "fst (snd (getOnlinePlayersCount emptyEnv (constructor ''/api/server/stats''))) =
       Inr (Some 0)"
    by (simp add: constructor_def)
  ultimately show ?thesis by simp
qed

lemma enter_sets: "\<not> isUpdating m \<Longrightarrow> \<exists>m'. updateStats_enter m = Some m' \<and> isUpdating m'"
  by (simp add: updateStats_enter_def)

lemma enter_guard: "isUpdating m \<Longrightarrow> updateStats_enter m = None"
  by (simp add: updateStats_enter_def)

lemma resume_clears: "\<not> isUpdating (fst (snd (updateStats_resume e clock (m, pg))))"
  by (simp add: resume_stats)

lemma invoke_while_updating: "isUpdating (stats w) \<Longrightarrow> step w Invoke = w"
  by (simp add: step_def updateStats_enter_def)

lemma step_oneAtATime: "oneAtATime w \<Longrightarrow> oneAtATime (step w ev)"
proof (cases ev)
  case Invoke
  assume "oneAtATime w"
  with Invoke show ?thesis
    by (auto simp: oneAtATime_def step_def updateStats_enter_def)
next
  case (Resume e clock)
  assume a: "oneAtATime w"
  obtain fx m pg where r: "updateStats_resume e clock (stats w, dom w) = (fx, m, pg)"
    by (cases "updateStats_resume e clock (stats w, dom w)") auto
  with resume_clears [of e clock "stats w" "dom w"] have "\<not> isUpdating m" by simp
  with a Resume r show ?thesis
    by (auto simp: oneAtATime_def step_def)
qed

lemma run_oneAtATime: "oneAtATime w \<Longrightarrow> oneAtATime (run w evs)"
  unfolding run_def
proof (induction evs arbitrary: w)
  case Nil
  then show ?case by simp
next
  case (Cons ev evs)
  from Cons.prems have "oneAtATime (step w ev)" by (rule step_oneAtATime)
  from Cons.IH [OF this] show ?case by simp
qed

lemma initial_oneAtATime: "oneAtATime (initial endpoint pg)"
  by (simp add: oneAtATime_def initial_def constructor_def)

text \<open>
  C9. \<open>updateStats\<close> sets \<open>isUpdating\<close> when it passes the guard and has cleared it when
  it ends, on each of its paths; a call that starts while \<open>isUpdating\<close> is set returns at
  the guard and leaves the module, the page and the log as they were, so it fetches and
  displays nothing. From a new module, whatever calls and completions follow, at most one
  call is ever between its guard and its end, and the flag is set exactly then.
\<close>

theorem updateStats_reentrancy:
  "(\<not> isUpdating m \<longrightarrow> (\<exists>m'. updateStats_enter m = Some m' \<and> isUpdating m'))
   \<and> (isUpdating m \<longrightarrow> updateStats_enter m = None)
   \<and> \<not> isUpdating (fst (snd (updateStats_resume e clock (m, pg))))
   \<and> (isUpdating (stats w) \<longrightarrow> step w Invoke = w)
   \<and> \<not> isUpdating (stats (initial endpoint pg))
   \<and> suspended (run (initial endpoint pg) evs) \<le> 1
   \<and> isUpdating (stats (run (initial endpoint pg) evs)) =
       (suspended (run (initial endpoint pg) evs) = 1)"
proof -
  have "oneAtATime (run (initial endpoint pg) evs)"
    using initial_oneAtATime by (rule run_oneAtATime)
  moreover have "\<not> isUpdating (stats (initial endpoint pg))"
    by (simp add: initial_def constructor_def)
  ultimately show ?thesis
    using enter_sets [of m] enter_guard [of m] resume_clears [of e clock m pg]
      invoke_while_updating [of w]
    unfolding oneAtATime_def by blast
qed

theorem updateStats_reentrancy_witness:
  "step (step (initial ''/api/server/stats'' samplePage) Invoke) Invoke =
     step (initial ''/api/server/stats'' samplePage) Invoke
   \<and> suspended (step (initial ''/api/server/stats'' samplePage) Invoke) = 1"
proof -
  have 1: "isUpdating (stats (step (initial ''/api/server/stats'' samplePage) Invoke))"
    by (simp add: step_def initial_def constructor_def updateStats_enter_def)
  have 2: "suspended (step (initial ''/api/server/stats'' samplePage) Invoke) = 1"
    by (simp add: step_def initial_def constructor_def updateStats_enter_def)
  from 1 2 updateStats_reentrancy
    [of _ _ _ _ "step (initial ''/api/server/stats'' samplePage) Invoke"]
  show ?thesis by blast
qed

section \<open>Properties of showing and clearing the errors\<close>

lemma clearErrors_map: "clearErrors doc = map clearedElement doc"
  by (simp add: clearErrors_def clearedElement_def Let_def comp_def)

lemma clearedElement_classList:
  "classList (clearedElement el) = removeAll ''error'' (classList el)"
  by (cases "''error'' \<in> set (classList el)")
    (simp_all add: clearedElement_def Let_def classList_remove_def)

lemma clearedElement_message:
  "''error-message'' \<in> set (classList (clearedElement el)) \<Longrightarrow>
     textContent (clearedElement el) = [] \<and> display (clearedElement el) = ''none''"
  by (auto simp: clearedElement_def Let_def classList_remove_def split: if_splits)

lemma clearedElement_idempotent: "clearedElement (clearedElement el) = clearedElement el"
proof -
  have 1: "''error'' \<notin> set (classList (clearedElement el))"
    by (simp add: clearedElement_classList)
  show ?thesis
  proof (cases "''error-message'' \<in> set (classList (clearedElement el))")
    case True
    then have "textContent (clearedElement el) = [] \<and> display (clearedElement el) = ''none''"
      by (rule clearedElement_message)
    with 1 True show ?thesis
      by (simp add: clearedElement_def [of "clearedElement el"])
  next
    case False
    with 1 show ?thesis by (simp add: clearedElement_def [of "clearedElement el"])
  qed
qed

text \<open>What \<open>clearErrors\<close> does achieve: no element keeps the class \<open>error\<close>, every element
  of class \<open>error-message\<close> is empty and hidden, and a second run changes nothing.\<close>

lemma clearErrors_by_class:
  "el \<in> set (clearErrors doc) \<Longrightarrow>
   ''error'' \<notin> set (classList el)
   \<and> (''error-message'' \<in> set (classList el) \<longrightarrow> textContent el = [] \<and> display el = ''none'')"
  by (auto simp: clearErrors_map clearedElement_classList dest: clearedElement_message)

lemma clearErrors_idempotent: "clearErrors (clearErrors doc) = clearErrors doc"
  by (simp add: clearErrors_map clearedElement_idempotent)

text \<open>
  C8. On a page that already holds the message element of the field \<open>email\<close> under the id
  \<open>email-error\<close>, without the class \<open>error-message\<close>, \<open>displayErrors\<close> marks the field and
  writes the message into that element, which it finds by its id; \<open>clearErrors\<close> then
  takes the marking off the field and leaves the element as it is, since it looks for
  message elements by their class: the text of the message is still shown.
\<close>

theorem clearErrors_leaves_message_found_by_id:
  "displayErrors samplePlatform [(''email'', ''bad'')] staleDocument =
     ([\<lparr>localName = ''input'', attrs = [(''name'', ''email''), (''required'', [])],
        type = ''email'', classList = [''error''], textContent = [], display = []\<rparr>,
       \<lparr>localName = ''span'', attrs = [(''id'', ''email-error'')], type = [],
        classList = [], textContent = ''bad'', display = ''block''\<rparr>], None)
   \<and> clearErrors (fst (displayErrors samplePlatform [(''email'', ''bad'')] staleDocument)) =
     [\<lparr>localName = ''input'', attrs = [(''name'', ''email''), (''required'', [])],
       type = ''email'', classList = [], textContent = [], display = []\<rparr>,
      \<lparr>localName = ''span'', attrs = [(''id'', ''email-error'')], type = [],
       classList = [], textContent = ''bad'', display = ''block''\<rparr>]"
  by (simp add: displayErrors_def clearErrors_def staleDocument_def displayError_def
      querySelector_def samplePlatform_def getAttribute_def getElementById_def
      classList_add_def classList_remove_def)

text \<open>On a page without such an element \<open>displayErrors\<close> creates it with the class, and
  \<open>clearErrors\<close> empties it.\<close>

lemma displayErrors_then_clearErrors_sample:
  "clearErrors (fst (displayErrors samplePlatform [(''email'', ''bad'')] sampleDocument)) =
     [\<lparr>localName = ''input'', attrs = [(''name'', ''email''), (''required'', [])],
       type = ''email'', classList = [], textContent = [], display = []\<rparr>,
      \<lparr>localName = ''span'', attrs = [(''id'', ''email-error'')],
       type = [], classList = [''error-message''], textContent = [],
       display = ''none''\<rparr>]"
  by (simp add: displayErrors_def clearErrors_def sampleDocument_def displayError_def
      querySelector_def samplePlatform_def getAttribute_def getElementById_def
      classList_add_def classList_remove_def)

section \<open>Properties of the form validator\<close>

text \<open>Setting a property: nothing under the key \<open>__proto__\<close>, an update of the map under
  every other key.\<close>

lemma setProperty_proto: "setProperty ''__proto__'' v al = al"
  by (simp add: setProperty_def)

lemma map_of_setProperty:
  "k \<noteq> ''__proto__'' \<Longrightarrow> map_of (setProperty k v al) = (map_of al)(k \<mapsto> v)"
  by (simp add: setProperty_def AList.update_conv')

lemma checkEmail_rule:
  "name field \<noteq> ''__proto__'' \<Longrightarrow>
   map_of (checkEmail field v errs) =
     (case emailRule field v of None \<Rightarrow> map_of errs | Some m \<Rightarrow> (map_of errs)(name field \<mapsto> m))"
  by (simp add: checkEmail_def emailRule_def map_of_setProperty)

lemma checkPassword_rule:
  "name field \<noteq> ''__proto__'' \<Longrightarrow>
   map_of (checkPassword P field v errs) =
     (case passwordRule P field v of
        None \<Rightarrow> map_of errs | Some m \<Rightarrow> (map_of errs)(name field \<mapsto> m))"
  by (simp add: checkPassword_def passwordRule_def map_of_setProperty split: option.splits)

lemma checkMinlength_rule:
  "name field \<noteq> ''__proto__'' \<Longrightarrow>
   map_of (checkMinlength field v errs) =
     (case minlengthRule field v of
        None \<Rightarrow> map_of errs | Some m \<Rightarrow> (map_of errs)(name field \<mapsto> m))"
  by (simp add: checkMinlength_def minlengthRule_def map_of_setProperty Let_def
      split: option.splits)

lemma checkMaxlength_rule:
  "name field \<noteq> ''__proto__'' \<Longrightarrow>
   map_of (checkMaxlength field v errs) =
     (case maxlengthRule field v of
        None \<Rightarrow> map_of errs | Some m \<Rightarrow> (map_of errs)(name field \<mapsto> m))"
  by (simp add: checkMaxlength_def maxlengthRule_def map_of_setProperty Let_def
      split: option.splits)

lemma checkPattern_rule:
  "name field \<noteq> ''__proto__'' \<Longrightarrow> checkPattern P field v errs = Inr errs' \<Longrightarrow>
   map_of errs' =
     (case patternRule P field v of
        None \<Rightarrow> map_of errs | Some m \<Rightarrow> (map_of errs)(name field \<mapsto> m))"
  by (auto simp: checkPattern_def patternRule_def map_of_setProperty
      split: option.splits sum.splits if_splits)

lemma checkField_map_of:
  assumes "checkField P fd field errs = Inr errs'" "name field \<noteq> ''__proto__''"
  shows "map_of errs' =
     (case verdict P fd field of
        None \<Rightarrow> map_of errs | Some m \<Rightarrow> (map_of errs)(name field \<mapsto> m))"
proof -
  from assms(1) obtain b where b: "isBlank (formData_get fd (name field)) = Inr b"
    by (auto simp: checkField_def Let_def split: sum.splits)
  show ?thesis
  proof (cases b)
    case True
    with assms b show ?thesis
      by (auto simp: checkField_def verdict_def fieldLabel_def map_of_setProperty Let_def)
  next
    case False
    define v where "v = stringOf (formData_get fd (name field))"
    from False b assms(1) have
      "checkPattern P field v
         (checkMaxlength field v (checkMinlength field v
            (checkPassword P field v (checkEmail field v errs)))) = Inr errs'"
      by (simp add: checkField_def Let_def v_def)
    from checkPattern_rule [OF assms(2) this] assms(2) have
      "map_of errs' =
         (case lastViolation P field v of
            None \<Rightarrow> map_of errs | Some m \<Rightarrow> (map_of errs)(name field \<mapsto> m))"
      by (simp add: lastViolation_def checkMaxlength_rule checkMinlength_rule
          checkPassword_rule checkEmail_rule split: option.splits)
    with False b show ?thesis by (simp add: verdict_def v_def)
  qed
qed

lemma checkField_proto:
  assumes "checkField P fd field errs = Inr errs'" "name field = ''__proto__''"
  shows "errs' = errs"
  using assms
  by (auto simp: checkField_def checkPattern_def checkMaxlength_def checkMinlength_def
      checkPassword_def checkEmail_def setProperty_def Let_def
      split: sum.splits option.splits if_splits)

lemma checkField_frame:
  assumes "checkField P fd field errs = Inr errs'" "k \<noteq> name field"
  shows "map_of errs' k = map_of errs k"
proof (cases "name field = ''__proto__''")
  case True
  with checkField_proto [OF assms(1)] show ?thesis by simp
next
  case False
  with checkField_map_of [OF assms(1)] assms(2) show ?thesis
    by (simp split: option.splits)
qed



lemma forEach_entry:
  assumes "forEach (checkField P fd) gs errs = Inr errs'" "distinct (map name gs)"
    "k \<noteq> ''__proto__''"
  shows "map_of errs' k =
     (case find (\<lambda>g. name g = k) gs of
        None \<Rightarrow> map_of errs k
      | Some g \<Rightarrow> (case verdict P fd g of None \<Rightarrow> map_of errs k | Some m \<Rightarrow> Some m))"
  using assms(1,2)
proof (induction gs arbitrary: errs)
  case Nil
  then show ?case by simp
next
  case (Cons g gs)
  from Cons.prems(1) obtain errs1 where
    1: "checkField P fd g errs = Inr errs1"
    and 2: "forEach (checkField P fd) gs errs1 = Inr errs'"
    by (auto split: sum.splits)
  from Cons.prems(2) have d: "distinct (map name gs)" and n: "name g \<notin> name ` set gs"
    by simp_all
  note ih = Cons.IH [OF 2 d]
  show ?case
  proof (cases "name g = k")
    case True
    with n have "find (\<lambda>g. name g = k) gs = None"
      by (auto simp: find_None_iff image_iff)
    moreover from True assms(3) have "name g \<noteq> ''__proto__''" by simp
    note checkField_map_of [OF 1 this]
    ultimately show ?thesis using ih True by (simp split: option.splits)
  next
    case False
    then have "k \<noteq> name g" by simp
    from checkField_frame [OF 1 this] have "map_of errs1 k = map_of errs k" .
    with ih False show ?thesis by (simp split: option.splits)
  qed
qed







lemma validate_Inr:
  "validate P f = Inr r \<Longrightarrow>
   forEach (checkField P (formData f)) (querySelectorAll_required f) [] = Inr (errors r)
   \<and> valid r = (errors r = [])"
  by (auto simp: validate_def split: sum.splits)

lemma find_distinct_name:
  "distinct (map name gs) \<Longrightarrow> g \<in> set gs \<Longrightarrow> find (\<lambda>h. name h = name g) gs = Some g"
  by (induction gs) (auto simp: image_iff)

lemma validate_entry:
  assumes "validate P f = Inr r" "distinct (map name (querySelectorAll_required f))"
    "field \<in> set (elements f)" "requiredField field" "name field \<noteq> ''__proto__''"
  shows "map_of (errors r) (name field) = verdict P (formData f) field"
proof -
  from assms(3,4) have "field \<in> set (querySelectorAll_required f)"
    by (simp add: querySelectorAll_required_def)
  with assms(2) have "find (\<lambda>h. name h = name field) (querySelectorAll_required f) = Some field"
    by (rule find_distinct_name)
  with forEach_entry [of P "formData f" "querySelectorAll_required f" "[]" "errors r" "name field"]
    validate_Inr [OF assms(1)] assms(2,5)
  show ?thesis by (simp split: option.splits)
qed



lemma parseInt_8: "parseInt ''8'' = Some 8"
  by (simp add: parseInt_def isWhiteSpace_def parseDigits_def isDigit_def digitValue_def
      digitsValue_def Let_def)


lemma validate_shortEmailForm:
  "validate samplePlatform shortEmailForm =
     Inr \<lparr>valid = False, errors = [(''email'', MinLengthMsg ''8'')]\<rparr>"
  by (simp add: validate_def shortEmailForm_def querySelectorAll_required_def
      requiredField_def emailInput_def hasAttribute_def getAttribute_def checkField_def
      name_def formData_get_def isBlank_def stringOf_def trim_def isWhiteSpace_def
      checkEmail_def checkPassword_def checkMinlength_def checkMaxlength_def
      checkPattern_def setProperty_def parseInt_8 shorterThan_def Let_def)

lemma emailInput_facts:
  "requiredField emailInput" "type emailInput = ''email''" "name emailInput = ''email''"
  "getAttribute emailInput ''minlength'' = Some ''8''"
  "getAttribute emailInput ''maxlength'' = None"
  "getAttribute emailInput ''pattern'' = None"
  "fieldLabel emailInput = ''Email''"
  by (simp_all add: emailInput_def requiredField_def hasAttribute_def getAttribute_def
      name_def fieldLabel_def placeholder_def)

lemma not_email_abcde: "\<not> validateEmail ''abcde''"
  by (simp add: validateEmail_def emailRegex_def notSpaceAt_def isWhiteSpace_def)

text \<open>
  C1, as stated, fails: for a required field of type \<open>email\<close> with \<open>minlength\<close> 8 and the
  value \<open>abcde\<close>, of length 5 and not of the shape of an email address, the entry kept is
  the minimum-length message, which the later rule wrote over the email message.
\<close>

theorem validate_email_minlength_counterexample:
  "emailInput \<in> set (elements shortEmailForm)
   \<and> type emailInput = ''email''
   \<and> getAttribute emailInput ''minlength'' = Some ''8''
   \<and> formData_get (formData shortEmailForm) (name emailInput) = Some (Text ''abcde'')
   \<and> length ''abcde'' = 5
   \<and> \<not> validateEmail ''abcde''
   \<and> validate samplePlatform shortEmailForm =
       Inr \<lparr>valid = False, errors = [(''email'', MinLengthMsg ''8'')]\<rparr>
   \<and> map_of [(''email'', MinLengthMsg ''8'')] (name emailInput) \<noteq> Some EmailMsg"
  by (simp add: emailInput_facts not_email_abcde validate_shortEmailForm)
    (simp add: shortEmailForm_def formData_get_def)

text \<open>
  C1, amended. For a required field of type \<open>email\<close> whose name is not \<open>__proto__\<close> and is
  the name of no other required field, whose value is a string that is not blank, has
  length 5 and is not of the shape of an email address, and whose \<open>minlength\<close> is 8,
  the entry kept when \<open>validate\<close> returns is that of the last rule violated: the
  minimum-length message for the minimum 8, unless the maximum-length rule or the pattern
  rule is violated as well and writes over it.
\<close>

theorem validate_email_minlength:
  assumes "validate P f = Inr r"
    and "field \<in> set (elements f)" "requiredField field"
    and "distinct (map name (querySelectorAll_required f))"
    and "name field \<noteq> ''__proto__''"
    and "type field = ''email''"
    and "formData_get (formData f) (name field) = Some (Text v)"
    and "length v = 5" "\<not> validateEmail v" "trim v \<noteq> []"
    and "getAttribute field ''minlength'' = Some ''8''"
  shows "map_of (errors r) (name field) =
     Some (case patternRule P field v of
             Some m \<Rightarrow> m
           | None \<Rightarrow> (case maxlengthRule field v of
                        Some m \<Rightarrow> m
                      | None \<Rightarrow> MinLengthMsg ''8''))"
proof -
  from assms(8,11) have "minlengthRule field v = Some (MinLengthMsg ''8'')"
    by (simp add: minlengthRule_def parseInt_8 shorterThan_def)
  then have "lastViolation P field v =
     Some (case patternRule P field v of
             Some m \<Rightarrow> m
           | None \<Rightarrow> (case maxlengthRule field v of
                        Some m \<Rightarrow> m
                      | None \<Rightarrow> MinLengthMsg ''8''))"
    by (simp add: lastViolation_def split: option.splits)
  moreover from assms(8,10) have "isBlank (Some (Text v)) = Inr False"
    by (auto simp: isBlank_def)
  ultimately show ?thesis
    using assms(7) validate_entry [OF assms(1,4,2,3,5)]
    by (simp add: verdict_def stringOf_def)
qed

theorem validate_email_minlength_witness:
  "map_of (errors (projr (validate samplePlatform shortEmailForm))) (name emailInput) =
     Some (MinLengthMsg ''8'')"
proof -
  have 1: "validate samplePlatform shortEmailForm =
       Inr \<lparr>valid = False, errors = [(''email'', MinLengthMsg ''8'')]\<rparr>"
    by (rule validate_shortEmailForm)
  have 2: "emailInput \<in> set (elements shortEmailForm)"
    "distinct (map name (querySelectorAll_required shortEmailForm))"
    "formData_get (formData shortEmailForm) (name emailInput) = Some (Text ''abcde'')"
    "name emailInput \<noteq> ''__proto__''"
    by (simp_all add: shortEmailForm_def querySelectorAll_required_def formData_get_def
        emailInput_facts)
  have 3: "length ''abcde'' = 5" "trim ''abcde'' \<noteq> []"
    by (simp_all add: trim_def isWhiteSpace_def)
  have 4: "patternRule samplePlatform emailInput ''abcde'' = None"
    "maxlengthRule emailInput ''abcde'' = None"
    by (simp_all add: patternRule_def maxlengthRule_def emailInput_facts)
  from validate_email_minlength [OF 1 2(1) emailInput_facts(1) 2(2) 2(4) emailInput_facts(2)
      2(3) 3(1) not_email_abcde 3(2) emailInput_facts(4)]
  show ?thesis by (simp add: 1 4)
qed















end
